theory Spec2Isabelle
  imports Main "HOL-Library.AList" "HOL-Library.Char_ord" "HOL-Library.List_Lexorder"
    "HOL-Library.Product_Lexorder"
begin

section \<open>Documents\<close>

text \<open>
  A record's value is whatever \<^verbatim>\<open>yaml.Unmarshal\<close> puts into an \<^verbatim>\<open>interface{}\<close>:
  the nil interface (YAML null), a bool, an int, a string, a \<^verbatim>\<open>[]interface{}\<close>, a
  \<^verbatim>\<open>map[string]interface{}\<close> or a \<^verbatim>\<open>map[interface{}]interface{}\<close>.
  Go maps are association lists here; the list order stands for the order in which a
  \<^verbatim>\<open>range\<close> loop visits the entries, and \<open>map_of\<close> is the lookup. Go leaves that
  order open: a theorem that is stated for every store holds for every order of its
  lists, and results that are maps are compared through \<open>map_of\<close>.
  Floating point numbers and timestamps are not modelled.
\<close>

datatype yval =
    VNil
  | VBool bool
  | VInt int
  | VStr string
  | VSeq "yval list"
  | VMap "(string \<times> yval) list"
  | VIMap "(yval \<times> yval) list"

text \<open>\<^verbatim>\<open>strings.Split(s, sep)\<close> for a one-character separator.\<close>

fun split_on :: "char \<Rightarrow> string \<Rightarrow> string list" where
  "split_on sep [] = [[]]"
| "split_on sep (c # cs) =
     (if c = sep then [] # split_on sep cs
      else (case split_on sep cs of
              [] \<Rightarrow> [[c]]
            | w # ws \<Rightarrow> (c # w) # ws))"

text \<open>
  One round of the loop of \<^verbatim>\<open>getNestedValue\<close>: the type switch on \<^verbatim>\<open>current\<close>.
  \<open>None\<close> is the \<^verbatim>\<open>return nil, false\<close> of the three failing branches.
\<close>

fun nested_step :: "yval \<Rightarrow> string \<Rightarrow> yval option" where
  "nested_step (VMap v) k = map_of v k"
| "nested_step (VIMap v) k = map_of v (VStr k)"
| "nested_step _ k = None"

fun nested_loop :: "yval \<Rightarrow> string list \<Rightarrow> yval option" where
  "nested_loop current [] = Some current"
| "nested_loop current (k # keys) =
     (case nested_step current k of
        None \<Rightarrow> None
      | Some c \<Rightarrow> nested_loop c keys)"

definition getNestedValue :: "yval \<Rightarrow> string \<Rightarrow> yval option" where
  "getNestedValue data key = nested_loop data (split_on (CHR ''.'') key)"

text \<open>
  \<^verbatim>\<open>fmt.Sprintf("%v", val)\<close>. Scalars print as Go prints them, a sequence prints as
  \<^verbatim>\<open>[a b]\<close> and a map as \<^verbatim>\<open>map[k:v ...]\<close> with its entries sorted by key.
  The keys of a \<^verbatim>\<open>map[string]interface{}\<close> are sorted as strings. The keys of a
  \<^verbatim>\<open>map[interface{}]interface{}\<close> are sorted as package fmtsort sorts interface
  values: nil first, then by dynamic type, then by value within a type (false before
  true, integers by size, strings as strings). Two types are ordered by the addresses of
  their descriptors, which the linker fixes and the language leaves open: \<open>tord\<close> gives
  the position of each type in that order. A slice or a map cannot be a key of a Go
  map; as a key of \<open>VIMap\<close> it is put last.
\<close>

fun digits_of :: "nat \<Rightarrow> string" where
  "digits_of n =
     (if n < 10 then [char_of (48 + n)]
      else digits_of (n div 10) @ [char_of (48 + n mod 10)])"

definition sprintf_int :: "int \<Rightarrow> string" where
  "sprintf_int i = (if i < 0 then CHR ''-'' # digits_of (nat (- i)) else digits_of (nat i))"

fun join_with :: "string \<Rightarrow> string list \<Rightarrow> string" where
  "join_with sep [] = []"
| "join_with sep [x] = x"
| "join_with sep (x # y # ys) = x @ sep @ join_with sep (y # ys)"

datatype kind = KBool | KInt | KString

fun key_rank :: "(kind \<Rightarrow> nat) \<Rightarrow> yval \<Rightarrow> nat \<times> nat \<times> int \<times> string" where
  "key_rank tord VNil = (0, 0, 0, [])"
| "key_rank tord (VBool b) = (1, tord KBool, (if b then 1 else 0), [])"
| "key_rank tord (VInt i) = (1, tord KInt, i, [])"
| "key_rank tord (VStr s) = (1, tord KString, 0, s)"
| "key_rank tord (VSeq xs) = (2, 0, 0, [])"
| "key_rank tord (VMap m) = (2, 0, 0, [])"
| "key_rank tord (VIMap m) = (2, 0, 0, [])"

fun sprintf_v :: "(kind \<Rightarrow> nat) \<Rightarrow> yval \<Rightarrow> string" where
  "sprintf_v tord VNil = ''<nil>''"
| "sprintf_v tord (VBool b) = (if b then ''true'' else ''false'')"
| "sprintf_v tord (VInt i) = sprintf_int i"
| "sprintf_v tord (VStr s) = s"
| "sprintf_v tord (VSeq xs) = ''['' @ join_with '' '' (map (sprintf_v tord) xs) @ '']''"
| "sprintf_v tord (VMap m) =
     ''map['' @
     join_with '' ''
       (map (\<lambda>(k, s). k @ '':'' @ s)
          (sort_key fst (map (\<lambda>(k, v). (k, sprintf_v tord v)) m))) @ '']''"
| "sprintf_v tord (VIMap m) =
     ''map['' @
     join_with '' ''
       (map (\<lambda>(r, s). s)
          (sort_key fst
             (map (\<lambda>(k, v). (key_rank tord k, sprintf_v tord k @ '':'' @ sprintf_v tord v)) m))) @
     '']''"

text \<open>
  A Go map with interface keys panics when a key of slice or map type is hashed
  (\<^verbatim>\<open>index[val] = id\<close> with such a \<^verbatim>\<open>val\<close>).
\<close>

fun hashable :: "yval \<Rightarrow> bool" where
  "hashable (VSeq xs) = False"
| "hashable (VMap m) = False"
| "hashable (VIMap m) = False"
| "hashable _ = True"


section \<open>The datastore\<close>

type_synonym records = "(string \<times> yval) list"
type_synonym index = "(yval \<times> string) list"

text \<open>
  The fields of \<^verbatim>\<open>YAMLDatastore\<close>. \<open>files\<close> and \<open>txFiles\<close> are the key sets of the
  \<^verbatim>\<open>map[string]bool\<close> fields (only \<^verbatim>\<open>true\<close> is ever stored). \<open>cache\<close> is the entry
  \<^verbatim>\<open>cache["merged"]\<close>, the only key the code uses; \<open>None\<close> is the empty cache.
  \<open>txMu\<close> tells whether the mutex \<^verbatim>\<open>txMu\<close> is held. The lock \<^verbatim>\<open>mu\<close> is taken and
  released inside every operation and is free between calls, so it has no field.
  From \<^verbatim>\<open>BeginTransaction\<close> on, \<^verbatim>\<open>tx.data\<close> and \<^verbatim>\<open>ds.txData\<close> are one map object, as
  are \<^verbatim>\<open>tx.files\<close> and \<^verbatim>\<open>ds.txFiles\<close>; the methods of the handle of the open
  transaction therefore act on \<open>txData\<close> and \<open>txFiles\<close>.
\<close>

record YAMLDatastore =
  data :: records
  files :: "string list"
  indexes :: "(string \<times> index) list"
  dir :: string
  cache :: "records option"
  dirty :: bool
  txMu :: bool
  txActive :: bool
  txData :: records
  txFiles :: "string list"

datatype error = NotFound | IndexExists | TransactionActive | IOError

text \<open>
  What a call does: it returns normally, returns an error (\<open>Err\<close> carries the state the
  call leaves behind), panics (the process dies: nothing in the program recovers), or
  blocks on a mutex that is held.
\<close>

datatype 'a result = Ok 'a | Err error 'a | Panic | Blocked

definition empty_store :: "string \<Rightarrow> YAMLDatastore" where
  "empty_store d =
     \<lparr>data = [], files = [], indexes = [], dir = d, cache = None, dirty = False,
      txMu = False, txActive = False, txData = [], txFiles = []\<rparr>"

text \<open>
  \<^verbatim>\<open>filepath.Clean\<close> and \<^verbatim>\<open>filepath.Join\<close> of two elements, for paths with the
  separator \<^verbatim>\<open>/\<close>. \<open>clean_elems\<close> goes through the elements of the path with the
  elements kept so far, the last one first: an empty element and \<^verbatim>\<open>.\<close> are dropped,
  \<^verbatim>\<open>..\<close> removes the element before it, is dropped at the root, and is kept where a
  path that is not rooted has nothing left to remove. The empty result is \<^verbatim>\<open>.\<close>.
  \<^verbatim>\<open>Join\<close> skips leading empty elements, joins the rest with the separator, and cleans.
\<close>

fun clean_elems :: "bool \<Rightarrow> string list \<Rightarrow> string list \<Rightarrow> string list" where
  "clean_elems rooted [] out = out"
| "clean_elems rooted (e # es) out =
     (if e = [] \<or> e = ''.'' then clean_elems rooted es out
      else if e = ''..'' then
        (case out of
           [] \<Rightarrow> clean_elems rooted es (if rooted then [] else [''..''])
         | el # below \<Rightarrow>
             if el = ''..'' then clean_elems rooted es (''..'' # out)
             else clean_elems rooted es below)
      else clean_elems rooted es (e # out))"

definition filepath_Clean :: "string \<Rightarrow> string" where
  "filepath_Clean path =
     (case path of
        [] \<Rightarrow> ''.''
      | c # cs \<Rightarrow>
          (let rooted = (c = CHR ''/'');
               body = join_with ''/'' (rev (clean_elems rooted (split_on (CHR ''/'') path) []))
           in if rooted then CHR ''/'' # body
              else if body = [] then ''.'' else body))"

definition filepath_Join :: "string \<Rightarrow> string \<Rightarrow> string" where
  "filepath_Join a b =
     (if a \<noteq> [] then filepath_Clean (a @ ''/'' @ b)
      else if b \<noteq> [] then filepath_Clean b
      else [])"

definition shard_path :: "string \<Rightarrow> string \<Rightarrow> string" where
  "shard_path d fileID = filepath_Join d (''records_'' @ fileID @ ''.yaml'')"

definition invalidateCache :: "YAMLDatastore \<Rightarrow> YAMLDatastore" where
  "invalidateCache ds = ds\<lparr>cache := None\<rparr>"

text \<open>
  The body of the outer loop of \<^verbatim>\<open>updateIndexes\<close> for one index: drop every entry of
  the record, then enter the record under its value at the path, if it has one.
\<close>

definition drop_id :: "string \<Rightarrow> index \<Rightarrow> index" where
  "drop_id recordID idx = filter (\<lambda>(val, rid). rid \<noteq> recordID) idx"

definition update_index :: "string \<Rightarrow> yval \<Rightarrow> string \<Rightarrow> index \<Rightarrow> index option" where
  "update_index recordID dat key idx =
     (case getNestedValue dat key of
        None \<Rightarrow> Some (drop_id recordID idx)
      | Some val \<Rightarrow>
          if hashable val then Some (AList.update val recordID (drop_id recordID idx))
          else None)"

fun update_all :: "string \<Rightarrow> yval \<Rightarrow> (string \<times> index) list \<Rightarrow> (string \<times> index) list option" where
  "update_all recordID dat [] = Some []"
| "update_all recordID dat ((key, idx) # rest) =
     (case update_index recordID dat key idx of
        None \<Rightarrow> None
      | Some idx' \<Rightarrow>
          (case update_all recordID dat rest of
             None \<Rightarrow> None
           | Some rest' \<Rightarrow> Some ((key, idx') # rest')))"

definition updateIndexes :: "YAMLDatastore \<Rightarrow> string \<Rightarrow> yval \<Rightarrow> YAMLDatastore option" where
  "updateIndexes ds recordID dat =
     (case update_all recordID dat (indexes ds) of
        None \<Rightarrow> None
      | Some ixs \<Rightarrow> Some (ds\<lparr>indexes := ixs\<rparr>))"

subsection \<open>Set, Get, Delete\<close>

definition Set :: "YAMLDatastore \<Rightarrow> string \<Rightarrow> yval \<Rightarrow> string \<Rightarrow> YAMLDatastore result" where
  "Set ds recordID dat fileID =
     (if txActive ds then
        Ok (ds\<lparr>txData := AList.update recordID dat (txData ds),
               txFiles := List.insert (shard_path (dir ds) fileID) (txFiles ds)\<rparr>)
      else
        (case updateIndexes
                (invalidateCache
                   (ds\<lparr>data := AList.update recordID dat (data ds),
                       files := List.insert (shard_path (dir ds) fileID) (files ds),
                       dirty := True\<rparr>))
                recordID dat of
           None \<Rightarrow> Panic
         | Some ds' \<Rightarrow> Ok ds'))"

text \<open>
  \<^verbatim>\<open>Get\<close> returns \<^verbatim>\<open>(interface{}, error)\<close>; the nil interface is \<open>VNil\<close> and the nil
  error is \<open>None\<close>.
\<close>

definition Get :: "YAMLDatastore \<Rightarrow> string \<Rightarrow> yval \<times> error option" where
  "Get ds recordID =
     (case (if txActive ds then map_of (txData ds) recordID else None) of
        Some dat \<Rightarrow> (dat, None)
      | None \<Rightarrow>
          (case map_of (data ds) recordID of
             None \<Rightarrow> (VNil, None)
           | Some dat \<Rightarrow> (dat, None)))"

definition Delete :: "YAMLDatastore \<Rightarrow> string \<Rightarrow> YAMLDatastore result" where
  "Delete ds recordID =
     (if txActive ds then
        Ok (ds\<lparr>txData := AList.update recordID VNil (txData ds)\<rparr>)
      else if map_of (data ds) recordID = None then Err NotFound ds
      else
        Ok ((invalidateCache
               (ds\<lparr>data := AList.delete recordID (data ds), dirty := True\<rparr>))
              \<lparr>indexes := map (\<lambda>(key, idx). (key, drop_id recordID idx)) (indexes ds)\<rparr>))"

subsection \<open>Query and CreateIndex\<close>

text \<open>
  \<open>tx_nil\<close> is the test \<^verbatim>\<open>ds.txData[id] == nil\<close>: a missing key reads as the nil
  interface. \<open>tx_layer\<close> is
  \<^verbatim>\<open>if txData, ok := ds.txData[id]; ds.txActive && ok && txData != nil { data = txData }\<close>.
\<close>

definition tx_nil :: "YAMLDatastore \<Rightarrow> string \<Rightarrow> bool" where
  "tx_nil ds rid = (case map_of (txData ds) rid of None \<Rightarrow> True | Some t \<Rightarrow> t = VNil)"

definition tx_layer :: "YAMLDatastore \<Rightarrow> string \<Rightarrow> yval \<Rightarrow> yval" where
  "tx_layer ds rid dat =
     (case map_of (txData ds) rid of
        None \<Rightarrow> dat
      | Some t \<Rightarrow> if txActive ds \<and> t \<noteq> VNil then t else dat)"

text \<open>
  The bodies of the two loops of \<^verbatim>\<open>Query\<close>, over the index and over the records.
  \<open>tord\<close> is the order of the type descriptors that \<^verbatim>\<open>fmt.Sprintf\<close> sorts by.
\<close>

definition index_step ::
  "(kind \<Rightarrow> nat) \<Rightarrow> YAMLDatastore \<Rightarrow> string \<Rightarrow> records \<Rightarrow> yval \<times> string \<Rightarrow> records" where
  "index_step tord ds v =
     (\<lambda>res (val, rid).
        if sprintf_v tord val = v then
          (if txActive ds \<and> tx_nil ds rid then res
           else AList.update rid
                  (tx_layer ds rid (case map_of (data ds) rid of None \<Rightarrow> VNil | Some d \<Rightarrow> d))
                  res)
        else res)"

definition scan_step ::
  "(kind \<Rightarrow> nat) \<Rightarrow> YAMLDatastore \<Rightarrow> string \<Rightarrow> string \<Rightarrow> records \<Rightarrow> string \<times> yval \<Rightarrow> records" where
  "scan_step tord ds key v =
     (\<lambda>res (rid, dat).
        if txActive ds \<and> tx_nil ds rid then res
        else (case getNestedValue (tx_layer ds rid dat) key of
                None \<Rightarrow> res
              | Some val \<Rightarrow>
                  if sprintf_v tord val = v then AList.update rid (tx_layer ds rid dat) res
                  else res))"

definition query_index :: "(kind \<Rightarrow> nat) \<Rightarrow> YAMLDatastore \<Rightarrow> string \<Rightarrow> index \<Rightarrow> records" where
  "query_index tord ds v idx = foldl (index_step tord ds v) [] idx"

definition query_scan :: "(kind \<Rightarrow> nat) \<Rightarrow> YAMLDatastore \<Rightarrow> string \<Rightarrow> string \<Rightarrow> records" where
  "query_scan tord ds key v = foldl (scan_step tord ds key v) [] (data ds)"

definition Query :: "(kind \<Rightarrow> nat) \<Rightarrow> YAMLDatastore \<Rightarrow> string \<Rightarrow> string \<Rightarrow> records" where
  "Query tord ds key v =
     (case map_of (indexes ds) key of
        Some idx \<Rightarrow> query_index tord ds v idx
      | None \<Rightarrow> query_scan tord ds key v)"

fun build_index :: "string \<Rightarrow> records \<Rightarrow> index \<Rightarrow> index option" where
  "build_index key [] idx = Some idx"
| "build_index key ((rid, dat) # rest) idx =
     (case getNestedValue dat key of
        None \<Rightarrow> build_index key rest idx
      | Some val \<Rightarrow>
          if hashable val then build_index key rest (AList.update val rid idx)
          else None)"

definition CreateIndex :: "YAMLDatastore \<Rightarrow> string \<Rightarrow> YAMLDatastore result" where
  "CreateIndex ds key =
     (if map_of (indexes ds) key \<noteq> None then Err IndexExists ds
      else (case build_index key (data ds) [] of
              None \<Rightarrow> Panic
            | Some idx \<Rightarrow> Ok (ds\<lparr>indexes := AList.update key idx (indexes ds)\<rparr>)))"

subsection \<open>Transactions\<close>

text \<open>
  \<^verbatim>\<open>BeginTransaction\<close> locks \<^verbatim>\<open>txMu\<close> first and, when it succeeds, returns with the
  mutex still held; \<^verbatim>\<open>Commit\<close> and \<^verbatim>\<open>Rollback\<close> unlock it. Unlocking a mutex that
  is not held is a fatal error of the Go runtime.
  The handle returned holds the overlay \<open>txData\<close> of the state returned.
\<close>

definition BeginTransaction :: "YAMLDatastore \<Rightarrow> YAMLDatastore result" where
  "BeginTransaction ds =
     (if txMu ds then Blocked
      else if txActive ds then Err TransactionActive ds
      else Ok (ds\<lparr>txMu := True, txActive := True, txData := [], txFiles := []\<rparr>))"

definition tx_Set :: "YAMLDatastore \<Rightarrow> string \<Rightarrow> yval \<Rightarrow> string \<Rightarrow> YAMLDatastore" where
  "tx_Set ds recordID dat fileID =
     ds\<lparr>txData := AList.update recordID dat (txData ds),
        txFiles := List.insert (shard_path (dir ds) fileID) (txFiles ds)\<rparr>"

definition tx_Delete :: "YAMLDatastore \<Rightarrow> string \<Rightarrow> YAMLDatastore" where
  "tx_Delete ds recordID = ds\<lparr>txData := AList.update recordID VNil (txData ds)\<rparr>"

fun commit_loop :: "records \<Rightarrow> YAMLDatastore \<Rightarrow> YAMLDatastore option" where
  "commit_loop [] ds = Some ds"
| "commit_loop ((rid, dat) # rest) ds =
     (if dat = VNil then commit_loop rest (ds\<lparr>data := AList.delete rid (data ds)\<rparr>)
      else (case updateIndexes (ds\<lparr>data := AList.update rid dat (data ds)\<rparr>) rid dat of
              None \<Rightarrow> None
            | Some ds' \<Rightarrow> commit_loop rest ds'))"

definition Commit :: "YAMLDatastore \<Rightarrow> YAMLDatastore result" where
  "Commit ds =
     (case commit_loop (txData ds) ds of
        None \<Rightarrow> Panic
      | Some ds1 \<Rightarrow>
          if \<not> txMu ds then Panic
          else Ok ((invalidateCache
                      (ds1\<lparr>files := foldl (\<lambda>fs f. List.insert f fs) (files ds1) (txFiles ds),
                           dirty := True\<rparr>))
                     \<lparr>txActive := False, txMu := False\<rparr>))"

definition Rollback :: "YAMLDatastore \<Rightarrow> YAMLDatastore result" where
  "Rollback ds =
     (if \<not> txMu ds then Panic
      else Ok (ds\<lparr>txMu := False, txActive := False, txData := [], txFiles := []\<rparr>))"

subsection \<open>Merge\<close>

text \<open>
  \<open>merge_step\<close> is the body of the loop of \<^verbatim>\<open>Merge\<close>, and \<open>merge_view\<close> the loop: it
  builds \<^verbatim>\<open>merged\<close> afresh.
\<close>

definition merge_step :: "YAMLDatastore \<Rightarrow> records \<Rightarrow> string \<times> yval \<Rightarrow> records" where
  "merge_step ds =
     (\<lambda>merged (rid, dat).
        if txActive ds \<and> tx_nil ds rid then merged
        else AList.update rid (tx_layer ds rid dat) merged)"

definition merge_view :: "YAMLDatastore \<Rightarrow> records" where
  "merge_view ds = foldl (merge_step ds) [] (data ds)"

definition Merge :: "YAMLDatastore \<Rightarrow> records \<times> YAMLDatastore" where
  "Merge ds =
     (case cache ds of
        Some cached \<Rightarrow> (cached, ds)
      | None \<Rightarrow> (merge_view ds, ds\<lparr>cache := Some (merge_view ds)\<rparr>))"

subsection \<open>Save\<close>

text \<open>
  \<open>shard_of\<close> is the choice of \<^verbatim>\<open>filePath\<close> for one record; \<open>group_records\<close> is the
  loop that fills \<^verbatim>\<open>fileData\<close>. \<^verbatim>\<open>fileData[filePath][id] = data\<close> panics when
  \<^verbatim>\<open>fileData\<close> has no entry for \<^verbatim>\<open>filePath\<close> (assignment to an entry of a nil map).
  \<open>write_files\<close> is the loop that writes; \<open>w path\<close> tells whether
  \<^verbatim>\<open>os.WriteFile(path, ...)\<close> succeeds, and the list returned holds the shards written,
  in the order of writing. \<^verbatim>\<open>yaml.Marshal\<close> does not fail on the documents modelled.
\<close>

definition shard_of :: "string list \<Rightarrow> string \<Rightarrow> string \<Rightarrow> string" where
  "shard_of filesCopy d rid =
     (let fileID = (case split_on (CHR ''_'') rid of [] \<Rightarrow> [] | w # ws \<Rightarrow> w);
          filePath = shard_path d fileID
      in if filePath \<in> set filesCopy then filePath else shard_path d ''default'')"

fun group_records ::
  "string list \<Rightarrow> string \<Rightarrow> records \<Rightarrow> (string \<times> records) list \<Rightarrow> (string \<times> records) list option" where
  "group_records filesCopy d [] fileData = Some fileData"
| "group_records filesCopy d ((rid, dat) # rest) fileData =
     (case map_of fileData (shard_of filesCopy d rid) of
        None \<Rightarrow> None
      | Some recs \<Rightarrow>
          group_records filesCopy d rest
            (AList.update (shard_of filesCopy d rid) (AList.update rid dat recs) fileData))"

fun write_files ::
  "(string \<Rightarrow> bool) \<Rightarrow> (string \<times> records) list \<Rightarrow> (string \<times> records) list \<Rightarrow>
     error option \<times> (string \<times> records) list" where
  "write_files w [] written = (None, written)"
| "write_files w ((path, recs) # rest) written =
     (if recs = [] then write_files w rest written
      else if w path then write_files w rest (written @ [(path, recs)])
      else (Some IOError, written))"

definition Save ::
  "(string \<Rightarrow> bool) \<Rightarrow> YAMLDatastore \<Rightarrow> (string \<times> records) list \<times> YAMLDatastore result" where
  "Save w ds =
     (if \<not> dirty ds then ([], Ok ds)
      else (case group_records (files ds) (dir ds) (data ds) (map (\<lambda>path. (path, [])) (files ds)) of
              None \<Rightarrow> ([], Panic)
            | Some fileData \<Rightarrow>
                (case write_files w fileData [] of
                   (Some e, written) \<Rightarrow> (written, Err e ds)
                 | (None, written) \<Rightarrow> (written, Ok (ds\<lparr>dirty := False\<rparr>)))))"

subsection \<open>Loading\<close>

text \<open>
  \<open>disk path\<close> is what opening, reading and parsing the file gives: \<open>None\<close> when one of
  the three fails. \<^verbatim>\<open>readFile\<close> merges under the lock \<^verbatim>\<open>mu\<close>, so the merges of two
  workers never interleave, and a run of \<^verbatim>\<open>ConcurrentRead\<close> is fixed by the order in
  which the workers take the lock: the list \<open>sched\<close>, a rearrangement of the files found.
  \<open>entries\<close> is what \<^verbatim>\<open>filepath.Walk\<close> visits (path, is it a directory) up to its
  first error \<open>werr\<close>, if any.
\<close>

definition has_suffix :: "string \<Rightarrow> string \<Rightarrow> bool" where
  "has_suffix s suf = (length suf \<le> length s \<and> drop (length s - length suf) s = suf)"

fun read_loop :: "records \<Rightarrow> YAMLDatastore \<Rightarrow> YAMLDatastore option" where
  "read_loop [] ds = Some ds"
| "read_loop ((rid, rec) # rest) ds =
     (case updateIndexes (ds\<lparr>data := AList.update rid rec (data ds)\<rparr>) rid rec of
        None \<Rightarrow> None
      | Some ds' \<Rightarrow> read_loop rest ds')"

definition readFile :: "(string \<Rightarrow> records option) \<Rightarrow> YAMLDatastore \<Rightarrow> string \<Rightarrow> YAMLDatastore result" where
  "readFile disk ds path =
     (case disk path of
        None \<Rightarrow> Err IOError ds
      | Some fileData \<Rightarrow>
          (case read_loop fileData ds of
             None \<Rightarrow> Panic
           | Some ds' \<Rightarrow> Ok ds'))"

fun run_workers :: "(string \<Rightarrow> records option) \<Rightarrow> string list \<Rightarrow> YAMLDatastore \<Rightarrow> YAMLDatastore option" where
  "run_workers disk [] ds = Some ds"
| "run_workers disk (path # sched) ds =
     (case readFile disk ds path of
        Ok ds' \<Rightarrow> run_workers disk sched ds'
      | Err e ds' \<Rightarrow> run_workers disk sched ds'
      | Panic \<Rightarrow> None
      | Blocked \<Rightarrow> None)"

definition yaml_files :: "(string \<times> bool) list \<Rightarrow> string list" where
  "yaml_files entries =
     map fst (filter (\<lambda>(path, isDir). \<not> isDir \<and> has_suffix path ''.yaml'') entries)"

definition ConcurrentRead ::
  "(string \<times> bool) list \<Rightarrow> error option \<Rightarrow> (string \<Rightarrow> records option) \<Rightarrow> string list \<Rightarrow>
     YAMLDatastore \<Rightarrow> YAMLDatastore result" where
  "ConcurrentRead entries werr disk sched ds =
     (let ds1 = ds\<lparr>files := foldl (\<lambda>fs f. List.insert f fs) (files ds) (yaml_files entries)\<rparr>
      in case werr of
           Some e \<Rightarrow> Err e ds1
         | None \<Rightarrow>
             (case run_workers disk sched (ds1\<lparr>data := []\<rparr>) of
                None \<Rightarrow> Panic
              | Some ds2 \<Rightarrow> Ok ds2))"

subsection \<open>Histories\<close>

text \<open>
  A client's calls, one after the other. A call that returns an error leaves the client
  running, so the history goes on from the state the call left; a panic or a blocked
  call ends it.
\<close>

datatype op =
    OpSet string yval string
  | OpDelete string
  | OpCreateIndex string
  | OpBegin
  | OpTxSet string yval string
  | OpTxDelete string
  | OpCommit
  | OpRollback
  | OpMerge

fun apply_op :: "YAMLDatastore \<Rightarrow> op \<Rightarrow> YAMLDatastore result" where
  "apply_op ds (OpSet rid dat fileID) = Set ds rid dat fileID"
| "apply_op ds (OpDelete rid) = Delete ds rid"
| "apply_op ds (OpCreateIndex key) = CreateIndex ds key"
| "apply_op ds OpBegin = BeginTransaction ds"
| "apply_op ds (OpTxSet rid dat fileID) = Ok (tx_Set ds rid dat fileID)"
| "apply_op ds (OpTxDelete rid) = Ok (tx_Delete ds rid)"
| "apply_op ds OpCommit = Commit ds"
| "apply_op ds OpRollback = Rollback ds"
| "apply_op ds OpMerge = Ok (snd (Merge ds))"

fun run :: "YAMLDatastore \<Rightarrow> op list \<Rightarrow> YAMLDatastore result" where
  "run ds [] = Ok ds"
| "run ds (c # cs) =
     (case apply_op ds c of
        Ok ds' \<Rightarrow> run ds' cs
      | Err e ds' \<Rightarrow> run ds' cs
      | Panic \<Rightarrow> Panic
      | Blocked \<Rightarrow> Blocked)"

subsection \<open>Example stores\<close>

text \<open>
  One order of the type descriptors. The examples print no map with interface keys, so
  every other order gives the same results.
\<close>

definition decl_order :: "kind \<Rightarrow> nat" where
  "decl_order k = (case k of KBool \<Rightarrow> 0 | KInt \<Rightarrow> 1 | KString \<Rightarrow> 2)"

definition doc_ann :: yval where
  "doc_ann = VMap [(''name'', VStr ''Ann''), (''dept'', VStr ''eng'')]"

definition doc_bo :: yval where
  "doc_bo = VMap [(''name'', VStr ''Bo''), (''dept'', VStr ''eng'')]"

text \<open>The new store after \<^verbatim>\<open>BeginTransaction\<close>.\<close>

definition tx_open :: YAMLDatastore where
  "tx_open = (empty_store ''data'')\<lparr>txMu := True, txActive := True\<rparr>"

text \<open>A store whose one record is the YAML null, and one whose one record is the empty mapping.\<close>

definition null_store :: YAMLDatastore where
  "null_store =
     (empty_store ''data'')\<lparr>data := [(''a'', VNil)], files := [''data/records_a.yaml''],
                              dirty := True\<rparr>"

definition one_store :: YAMLDatastore where
  "one_store =
     (empty_store ''data'')\<lparr>data := [(''u1'', VMap [])], files := [''data/records_u1.yaml''],
                              dirty := True\<rparr>"

text \<open>A store with an open transaction that stages a new document for a committed record.\<close>

definition staged_store :: YAMLDatastore where
  "staged_store =
     \<lparr>data = [(''u1'', doc_ann)], files = [''data/records_u1.yaml''], indexes = [],
      dir = ''data'', cache = None, dirty = True, txMu = True,
      txActive = True, txData = [(''u1'', doc_bo)], txFiles = [''data/records_u1.yaml'']\<rparr>"

text \<open>The same, with the merge cache filled before the transaction began.\<close>

definition stale_store :: YAMLDatastore where
  "stale_store = staged_store\<lparr>cache := Some [(''u1'', doc_ann)]\<rparr>"

text \<open>The store after the transaction that staged \<open>doc_bo\<close> was merged and then rolled back.\<close>

definition rolled_back_store :: YAMLDatastore where
  "rolled_back_store =
     \<lparr>data = [(''u1'', doc_ann)], files = [''data/records_u1.yaml''], indexes = [],
      dir = ''data'', cache = Some [(''u1'', doc_bo)], dirty = True, txMu = False,
      txActive = False, txData = [], txFiles = []\<rparr>"

text \<open>A store left by the commit of a tombstone for an indexed record.\<close>

definition dangling_store :: YAMLDatastore where
  "dangling_store =
     \<lparr>data = [], files = [''data/records_u1.yaml''],
      indexes = [(''dept'', [(VStr ''eng'', ''u1'')])], dir = ''data'',
      cache = None, dirty = True, txMu = False, txActive = False,
      txData = [(''u1'', VNil)], txFiles = []\<rparr>"





text \<open>
  The store after \<^verbatim>\<open>Set("u1", doc, "zz")\<close> on the new store, and the store after loading
  the two files of \<open>apart_disk\<close> and setting \<open>z\<close>: in both, a record's own shard and the
  default shard are missing from the file set.
\<close>

definition zz_store :: YAMLDatastore where
  "zz_store =
     (empty_store ''data'')\<lparr>data := [(''u1'', doc_ann)], files := [''data/records_zz.yaml''],
                              dirty := True\<rparr>"

definition loaded_set_store :: YAMLDatastore where
  "loaded_set_store =
     (empty_store ''data'')\<lparr>data := [(''x'', VInt 1), (''y'', VInt 2), (''z'', doc_ann)],
        files := [''data/records_z.yaml'', ''data/b.yaml'', ''data/a.yaml''], dirty := True\<rparr>"

text \<open>A dirty store with two records in two shards, and two behaviours of the disk.\<close>

definition two_shards :: YAMLDatastore where
  "two_shards =
     (empty_store ''data'')\<lparr>data := [(''u1_a'', doc_ann), (''u2'', doc_bo)],
        files := [''data/records_u2.yaml'', ''data/records_u1.yaml''], dirty := True\<rparr>"

definition write_all :: "string \<Rightarrow> bool" where
  "write_all path = True"

definition write_all_but_u1 :: "string \<Rightarrow> bool" where
  "write_all_but_u1 path = (path \<noteq> ''data/records_u1.yaml'')"

text \<open>
  The ids a file defines, and the condition that no id is defined by two of the files.
  \<open>file_map\<close> is what merging one file adds to the records: within a file the last
  entry of an id wins, a file that cannot be read adds nothing.
\<close>

definition file_ids :: "(string \<Rightarrow> records option) \<Rightarrow> string \<Rightarrow> string list" where
  "file_ids disk path = (case disk path of None \<Rightarrow> [] | Some fileData \<Rightarrow> map fst fileData)"

definition disjoint_ids :: "(string \<Rightarrow> records option) \<Rightarrow> string list \<Rightarrow> bool" where
  "disjoint_ids disk paths =
     (\<forall>p \<in> set paths. \<forall>q \<in> set paths.
        p \<noteq> q \<longrightarrow> set (file_ids disk p) \<inter> set (file_ids disk q) = {})"

definition file_map :: "(string \<Rightarrow> records option) \<Rightarrow> string \<Rightarrow> (string \<rightharpoonup> yval)" where
  "file_map disk path =
     (case disk path of None \<Rightarrow> Map.empty | Some fileData \<Rightarrow> map_of (rev fileData))"

text \<open>
  A directory with two shard files and a file that is not one; a disk on which both
  shards define the id \<open>x\<close>, and one on which they define different ids.
\<close>

definition two_entries :: "(string \<times> bool) list" where
  "two_entries =
     [(''data'', True), (''data/a.yaml'', False), (''data/b.yaml'', False),
      (''data/notes.txt'', False)]"

definition clash_disk :: "string \<Rightarrow> records option" where
  "clash_disk path =
     (if path = ''data/a.yaml'' then Some [(''x'', VInt 1)]
      else if path = ''data/b.yaml'' then Some [(''x'', VInt 2)]
      else None)"

definition apart_disk :: "string \<Rightarrow> records option" where
  "apart_disk path =
     (if path = ''data/a.yaml'' then Some [(''x'', VInt 1)]
      else if path = ''data/b.yaml'' then Some [(''y'', VInt 2)]
      else None)"

definition loaded_store :: YAMLDatastore where
  "loaded_store = (empty_store ''data'')\<lparr>files := [''data/b.yaml'', ''data/a.yaml'']\<rparr>"

subsection \<open>Histories of Set and Delete, and what an index holds\<close>














section \<open>Transactions and the store's own calls\<close>

text \<open>
  Claim C4. A second \<^verbatim>\<open>BeginTransaction\<close> while a transaction is open should fail with
  the conflict error, not block. In the code the first call returns with \<^verbatim>\<open>txMu\<close>
  held, so the second call blocks on \<^verbatim>\<open>ds.txMu.Lock()\<close> and never reaches the test of
  \<^verbatim>\<open>txActive\<close>: on the new store, the first call gives \<open>tx_open\<close>, and the call on
  \<open>tx_open\<close> blocks. After \<^verbatim>\<open>Commit\<close> or \<^verbatim>\<open>Rollback\<close> the next call succeeds, with
  an empty overlay.
\<close>

theorem C4_second_begin_blocks:
  "BeginTransaction (empty_store ''data'') = Ok tx_open
   \<and> txActive tx_open
   \<and> BeginTransaction tx_open = Blocked
   \<and> Commit tx_open = Ok ((empty_store ''data'')\<lparr>dirty := True\<rparr>)
   \<and> BeginTransaction ((empty_store ''data'')\<lparr>dirty := True\<rparr>) = Ok (tx_open\<lparr>dirty := True\<rparr>)
   \<and> txData (tx_open\<lparr>dirty := True\<rparr>) = []
   \<and> Rollback tx_open = Ok (empty_store ''data'')
   \<and> txData tx_open = []"
  by code_simp

text \<open>
  Claim C5, as stated, fails while a transaction is open: \<^verbatim>\<open>Delete\<close> of an id that is
  nowhere stages a tombstone and returns success.
\<close>

theorem C5_counterexample:
  "BeginTransaction (empty_store ''data'') = Ok tx_open
   \<and> map_of (data tx_open) ''u1'' = None
   \<and> Delete tx_open ''u1'' = Ok (tx_open\<lparr>txData := [(''u1'', VNil)]\<rparr>)"
  by code_simp

text \<open>
  Claim C5, amended. When no transaction is open, \<^verbatim>\<open>Delete\<close> of an id that is not in
  the store returns the not-found error and leaves the whole store as it was: records,
  indexes, merge cache and dirty flag.
\<close>

theorem C5_delete_missing:
  "\<not> txActive ds \<Longrightarrow> map_of (data ds) rid = None \<Longrightarrow> Delete ds rid = Err NotFound ds"
  by (simp add: Delete_def)

text \<open>The amended claim C5 at a store with one record, for an id it does not hold.\<close>

theorem C5_delete_missing_witness:
  "\<not> txActive one_store \<and> map_of (data one_store) ''u2'' = None
   \<and> Delete one_store ''u2'' = Err NotFound one_store"
proof -
  have h1: "\<not> txActive one_store" by (simp add: one_store_def empty_store_def)
  have h2: "map_of (data one_store) ''u2'' = None" by (simp add: one_store_def empty_store_def)
  from C5_delete_missing [OF h1 h2] h1 h2 show ?thesis by simp
qed

text \<open>
  Claim C7, as stated, fails for a record whose document is the YAML null: \<^verbatim>\<open>Get\<close>
  answers \<^verbatim>\<open>(nil, nil)\<close> for it and for an id that is absent.
\<close>

theorem C7_counterexample:
  "Set (empty_store ''data'') ''a'' VNil ''a'' = Ok null_store
   \<and> map_of (data null_store) ''a'' = Some VNil
   \<and> map_of (data null_store) ''b'' = None
   \<and> Get null_store ''a'' = Get null_store ''b''"
  by code_simp

text \<open>
  Claim C7, amended. \<^verbatim>\<open>Get\<close> never returns an error. For an id that is neither in
  the store nor staged in an open transaction it returns the null document; with no
  transaction open it returns the document of an id that is present; and a result that
  is not the null document is the document committed or staged for the id. So the
  null document is the signal of a miss: it is distinct from every document that is not
  null (the empty mapping too), and it is the same as the result for an id whose
  document is null.
\<close>

theorem C7_get_null_on_miss:
  "snd (Get ds rid) = None
   \<and> (map_of (data ds) rid = None \<and> (txActive ds \<longrightarrow> map_of (txData ds) rid = None)
        \<longrightarrow> Get ds rid = (VNil, None))
   \<and> (\<not> txActive ds \<and> map_of (data ds) rid = Some d \<longrightarrow> Get ds rid = (d, None))
   \<and> (fst (Get ds rid) \<noteq> VNil \<longrightarrow>
        map_of (data ds) rid = Some (fst (Get ds rid))
        \<or> (txActive ds \<and> map_of (txData ds) rid = Some (fst (Get ds rid))))"
  by (auto simp: Get_def split: option.splits)

text \<open>
  The amended claim C7 at a store whose one record is the empty mapping: the record and
  an absent id are told apart.
\<close>

theorem C7_get_null_on_miss_witness:
  "map_of (data one_store) ''u2'' = None \<and> \<not> txActive one_store
   \<and> map_of (data one_store) ''u1'' = Some (VMap [])
   \<and> Get one_store ''u2'' = (VNil, None)
   \<and> Get one_store ''u1'' = (VMap [], None)
   \<and> Get one_store ''u1'' \<noteq> Get one_store ''u2''"
proof -
  have h1: "\<not> txActive one_store" by (simp add: one_store_def empty_store_def)
  have h2: "map_of (data one_store) ''u2'' = None" by (simp add: one_store_def empty_store_def)
  have h3: "map_of (data one_store) ''u1'' = Some (VMap [])"
    by (simp add: one_store_def empty_store_def)
  from C7_get_null_on_miss [of one_store "''u2''"] h1 h2
  have a: "Get one_store ''u2'' = (VNil, None)" by blast
  from C7_get_null_on_miss [of one_store "''u1''" "VMap []"] h1 h3
  have b: "Get one_store ''u1'' = (VMap [], None)" by blast
  from a b h1 h2 h3 show ?thesis by simp
qed

text \<open>
  Claim C10. While a transaction is open, \<^verbatim>\<open>Set\<close> on the store returns success and
  writes the document into the overlay only: committed records, indexes, dirty flag,
  merge cache and file set are unchanged. \<^verbatim>\<open>Delete\<close> on the store returns success
  and stages a tombstone, whether or not the id exists anywhere. \<^verbatim>\<open>Get\<close> returns the
  staged value of a staged id.
\<close>

theorem C10_store_calls_go_to_overlay:
  "txActive ds \<Longrightarrow>
     (\<exists>ds'. Set ds rid doc hint = Ok ds'
        \<and> data ds' = data ds \<and> indexes ds' = indexes ds \<and> dirty ds' = dirty ds
        \<and> cache ds' = cache ds \<and> files ds' = files ds
        \<and> map_of (txData ds') = (map_of (txData ds))(rid \<mapsto> doc))
   \<and> (\<exists>ds'. Delete ds rid = Ok ds'
        \<and> data ds' = data ds \<and> indexes ds' = indexes ds \<and> dirty ds' = dirty ds
        \<and> cache ds' = cache ds \<and> files ds' = files ds
        \<and> map_of (txData ds') = (map_of (txData ds))(rid \<mapsto> VNil))
   \<and> (map_of (txData ds) rid = Some t \<longrightarrow> Get ds rid = (t, None))"
  by (simp add: Set_def Delete_def Get_def update_conv')

text \<open>
  Claim C10 at a store with an open transaction that stages \<open>doc_bo\<close> for the committed
  record \<open>u1\<close>: \<^verbatim>\<open>Get\<close> returns the staged document, \<^verbatim>\<open>Delete\<close> of an id that is
  nowhere succeeds, and \<^verbatim>\<open>Set\<close> leaves the committed records alone.
\<close>

theorem C10_store_calls_go_to_overlay_witness:
  "txActive staged_store
   \<and> map_of (txData staged_store) ''u1'' = Some doc_bo
   \<and> map_of (data staged_store) ''u1'' = Some doc_ann
   \<and> Get staged_store ''u1'' = (doc_bo, None)
   \<and> map_of (data staged_store) ''u9'' = None
   \<and> (\<exists>ds'. Delete staged_store ''u9'' = Ok ds' \<and> data ds' = data staged_store)
   \<and> (\<exists>ds'. Set staged_store ''u2'' doc_ann ''u2'' = Ok ds' \<and> data ds' = data staged_store)"
proof -
  have h1: "txActive staged_store" by (simp add: staged_store_def)
  have h2: "map_of (txData staged_store) ''u1'' = Some doc_bo" by (simp add: staged_store_def)
  have h3: "map_of (data staged_store) ''u1'' = Some doc_ann" by (simp add: staged_store_def)
  have h4: "map_of (data staged_store) ''u9'' = None" by (simp add: staged_store_def)
  from C10_store_calls_go_to_overlay [OF h1, of "''u1''" doc_ann "''u1''" doc_bo] h2
  have a: "Get staged_store ''u1'' = (doc_bo, None)" by simp
  from C10_store_calls_go_to_overlay [OF h1, of "''u9''" doc_ann "''u9''" doc_bo]
  have b: "\<exists>ds'. Delete staged_store ''u9'' = Ok ds' \<and> data ds' = data staged_store"
    by blast
  from C10_store_calls_go_to_overlay [OF h1, of "''u2''" doc_ann "''u2''" doc_bo]
  have c: "\<exists>ds'. Set staged_store ''u2'' doc_ann ''u2'' = Ok ds' \<and> data ds' = data staged_store"
    by blast
  from a b c h1 h2 h3 h4 show ?thesis by simp
qed

section \<open>Indexes and the merge cache under transactions\<close>

text \<open>
  Claim C2. No index entry should point at an id that is not in the store, and
  \<^verbatim>\<open>Commit\<close> should treat the indexes as \<^verbatim>\<open>Delete\<close> does. For a tombstone
  \<^verbatim>\<open>Commit\<close> only deletes the record and leaves the indexes alone: after creating an
  index on \<open>dept\<close>, setting \<open>u1\<close> and committing a transaction that deletes \<open>u1\<close>, the
  index still maps \<open>eng\<close> to \<open>u1\<close>, which is gone, and the query by the index returns
  \<open>u1\<close> with the null document. \<^verbatim>\<open>Delete\<close> in place of the transaction empties the
  index.
\<close>

theorem C2_commit_leaves_dangling_entry:
  "run (empty_store ''data'')
     [OpCreateIndex ''dept'', OpSet ''u1'' doc_ann ''u1'', OpBegin, OpTxDelete ''u1'', OpCommit]
     = Ok dangling_store
   \<and> map_of (data dangling_store) ''u1'' = None
   \<and> map_of (indexes dangling_store) ''dept'' = Some [(VStr ''eng'', ''u1'')]
   \<and> Query decl_order dangling_store ''dept'' ''eng'' = [(''u1'', VNil)]
   \<and> run (empty_store ''data'')
       [OpCreateIndex ''dept'', OpSet ''u1'' doc_ann ''u1'', OpDelete ''u1'']
       = Ok (dangling_store\<lparr>indexes := [(''dept'', [])], txData := []\<rparr>)"
  by code_simp

text \<open>
  Claim C3. With a transaction open, \<^verbatim>\<open>Merge\<close> should layer the overlay over the
  committed records on every call, and a filled cache should equal a fresh merge.
  \<^verbatim>\<open>Merge\<close> returns the cache whenever it is filled, and neither
  \<^verbatim>\<open>BeginTransaction\<close> nor a staged write clears it: after a \<^verbatim>\<open>Set\<close>, a
  \<^verbatim>\<open>Merge\<close>, \<^verbatim>\<open>BeginTransaction\<close> and a staged \<^verbatim>\<open>Set\<close> of the same id, \<^verbatim>\<open>Merge\<close>
  returns the cached committed document, while the fresh merge holds the staged one.
  \<^verbatim>\<open>Rollback\<close> does not clear the cache either: a \<^verbatim>\<open>Merge\<close> inside the transaction
  caches the staged document, and after the rollback \<^verbatim>\<open>Merge\<close> still returns it, while
  the fresh merge holds the committed one.
\<close>

theorem C3_merge_served_from_stale_cache:
  "run (empty_store ''data'')
     [OpSet ''u1'' doc_ann ''u1'', OpMerge, OpBegin, OpTxSet ''u1'' doc_bo ''u1'']
     = Ok stale_store
   \<and> txActive stale_store
   \<and> cache stale_store = Some [(''u1'', doc_ann)]
   \<and> fst (Merge stale_store) = [(''u1'', doc_ann)]
   \<and> merge_view stale_store = [(''u1'', doc_bo)]
   \<and> run (empty_store ''data'')
       [OpSet ''u1'' doc_ann ''u1'', OpBegin, OpTxSet ''u1'' doc_bo ''u1'', OpMerge, OpRollback]
       = Ok rolled_back_store
   \<and> \<not> txActive rolled_back_store
   \<and> fst (Merge rolled_back_store) = [(''u1'', doc_bo)]
   \<and> merge_view rolled_back_store = [(''u1'', doc_ann)]"
  by code_simp

section \<open>Field paths\<close>










section \<open>Saving\<close>

text \<open>
  Claim C6. A dirty store should be saved by grouping the records by shard, with the
  default shard for a record whose own shard is unknown, writing every group that is not
  empty, and clearing the dirty flag once all writes succeeded; a failed write should
  return the error and leave the flag set. \<^verbatim>\<open>Save\<close> creates a group only for the paths
  of the file set, so when neither the shard of a record nor the default shard is in the
  file set, \<^verbatim>\<open>fileData[filePath][id] = data\<close> assigns into a nil map and \<^verbatim>\<open>Save\<close>
  panics, whatever the disk does: no shard is written and nothing is returned. This is
  so after \<^verbatim>\<open>Set("u1", doc, "zz")\<close> on the new store, and after loading a directory
  whose files are not named after the ids of their records and one \<^verbatim>\<open>Set\<close>. Where
  the shard of every record is in the file set, \<^verbatim>\<open>Save\<close> does what the claim says:
  both shards of \<open>two_shards\<close> are written and the flag is cleared, a second \<^verbatim>\<open>Save\<close>
  writes nothing, and a disk that refuses one shard gives the error with the flag set.
\<close>

theorem C6_save_panics_without_default_shard:
  "Set (empty_store ''data'') ''u1'' doc_ann ''zz'' = Ok zz_store
   \<and> dirty zz_store
   \<and> (\<forall>w. Save w zz_store = ([], Panic))
   \<and> ConcurrentRead two_entries None apart_disk [''data/a.yaml'', ''data/b.yaml'']
         (empty_store ''data'')
       = Ok (loaded_store\<lparr>data := [(''x'', VInt 1), (''y'', VInt 2)]\<rparr>)
   \<and> Set (loaded_store\<lparr>data := [(''x'', VInt 1), (''y'', VInt 2)]\<rparr>) ''z'' doc_ann ''z''
       = Ok loaded_set_store
   \<and> dirty loaded_set_store
   \<and> (\<forall>w. Save w loaded_set_store = ([], Panic))
   \<and> dirty two_shards
   \<and> Save write_all two_shards =
        ([(''data/records_u2.yaml'', [(''u2'', doc_bo)]),
          (''data/records_u1.yaml'', [(''u1_a'', doc_ann)])],
         Ok (two_shards\<lparr>dirty := False\<rparr>))
   \<and> Save write_all (two_shards\<lparr>dirty := False\<rparr>) = ([], Ok (two_shards\<lparr>dirty := False\<rparr>))
   \<and> Save write_all_but_u1 two_shards =
        ([(''data/records_u2.yaml'', [(''u2'', doc_bo)])], Err IOError two_shards)"
proof -
  have a1: "Set (empty_store ''data'') ''u1'' doc_ann ''zz'' = Ok zz_store" by code_simp
  have a2: "dirty zz_store" by (simp add: zz_store_def empty_store_def)
  have g1: "group_records (files zz_store) (dir zz_store) (data zz_store)
              (map (\<lambda>path. (path, [])) (files zz_store)) = None"
    by code_simp
  have a3: "\<forall>w. Save w zz_store = ([], Panic)"
    using a2 g1 by (simp add: Save_def)
  have b1: "ConcurrentRead two_entries None apart_disk [''data/a.yaml'', ''data/b.yaml'']
         (empty_store ''data'')
       = Ok (loaded_store\<lparr>data := [(''x'', VInt 1), (''y'', VInt 2)]\<rparr>)"
    by code_simp
  have b2: "Set (loaded_store\<lparr>data := [(''x'', VInt 1), (''y'', VInt 2)]\<rparr>) ''z'' doc_ann ''z''
       = Ok loaded_set_store"
    by code_simp
  have b3: "dirty loaded_set_store" by (simp add: loaded_set_store_def empty_store_def)
  have g2: "group_records (files loaded_set_store) (dir loaded_set_store) (data loaded_set_store)
              (map (\<lambda>path. (path, [])) (files loaded_set_store)) = None"
    by code_simp
  have b4: "\<forall>w. Save w loaded_set_store = ([], Panic)"
    using b3 g2 by (simp add: Save_def)
  have c1: "dirty two_shards" by (simp add: two_shards_def empty_store_def)
  have c2: "Save write_all two_shards =
        ([(''data/records_u2.yaml'', [(''u2'', doc_bo)]),
          (''data/records_u1.yaml'', [(''u1_a'', doc_ann)])],
         Ok (two_shards\<lparr>dirty := False\<rparr>))"
    by code_simp
  have c3: "Save write_all (two_shards\<lparr>dirty := False\<rparr>) = ([], Ok (two_shards\<lparr>dirty := False\<rparr>))"
    by code_simp
  have c4: "Save write_all_but_u1 two_shards =
        ([(''data/records_u2.yaml'', [(''u2'', doc_bo)])], Err IOError two_shards)"
    by code_simp
  from a1 a2 a3 b1 b2 b3 b4 c1 c2 c3 c4 show ?thesis by blast
qed

section \<open>Loading\<close>

text \<open>
  Claim C9, as stated, fails when two files define the same id: the record of the file
  whose worker merges last stays, so the two orders of two workers give two stores.
\<close>

theorem C9_counterexample:
  "ConcurrentRead two_entries None clash_disk [''data/a.yaml'', ''data/b.yaml''] (empty_store ''data'')
     = Ok (loaded_store\<lparr>data := [(''x'', VInt 2)]\<rparr>)
   \<and> ConcurrentRead two_entries None clash_disk [''data/b.yaml'', ''data/a.yaml''] (empty_store ''data'')
     = Ok (loaded_store\<lparr>data := [(''x'', VInt 1)]\<rparr>)
   \<and> Get (loaded_store\<lparr>data := [(''x'', VInt 2)]\<rparr>) ''x'' = (VInt 2, None)
   \<and> Get (loaded_store\<lparr>data := [(''x'', VInt 1)]\<rparr>) ''x'' = (VInt 1, None)"
  by code_simp

lemma updateIndexes_no_index: "indexes ds = [] \<Longrightarrow> updateIndexes ds rid dat = Some ds"
  by (simp add: updateIndexes_def)

lemma read_loop_no_index:
  "indexes ds = [] \<Longrightarrow>
     \<exists>recs. read_loop fileData ds = Some (ds\<lparr>data := recs\<rparr>)
       \<and> map_of recs = map_of (data ds) ++ map_of (rev fileData)"
proof (induction fileData arbitrary: ds)
  case Nil
  have "read_loop [] ds = Some (ds\<lparr>data := data ds\<rparr>)" by simp
  then show ?case by force
next
  case (Cons a fileData)
  obtain r dat where a: "a = (r, dat)" by (cases a)
  let ?ds = "ds\<lparr>data := AList.update r dat (data ds)\<rparr>"
  from Cons.prems have ix: "indexes ?ds = []" by simp
  from Cons.IH [OF ix] obtain recs where rl: "read_loop fileData ?ds = Some (?ds\<lparr>data := recs\<rparr>)"
    and m: "map_of recs = map_of (data ?ds) ++ map_of (rev fileData)" by blast
  have "read_loop (a # fileData) ds = Some (ds\<lparr>data := recs\<rparr>)"
    using rl ix by (simp add: a updateIndexes_no_index)
  moreover have "map_of recs = map_of (data ds) ++ map_of (rev (a # fileData))"
    using m by (simp add: a update_conv' map_add_upd_left fun_eq_iff map_add_def split: option.splits)
  ultimately show ?case by blast
qed

lemma readFile_no_index:
  "indexes ds = [] \<Longrightarrow>
     \<exists>recs. (readFile disk ds path = Ok (ds\<lparr>data := recs\<rparr>) \<or> readFile disk ds path = Err IOError (ds\<lparr>data := recs\<rparr>))
       \<and> map_of recs = map_of (data ds) ++ file_map disk path"
proof (cases "disk path")
  case None
  assume "indexes ds = []"
  have "readFile disk ds path = Err IOError (ds\<lparr>data := data ds\<rparr>)"
    by (simp add: readFile_def None)
  moreover have "map_of (data ds) = map_of (data ds) ++ file_map disk path"
    by (simp add: file_map_def None)
  ultimately show ?thesis by blast
next
  case (Some fileData)
  assume "indexes ds = []"
  from read_loop_no_index [OF this, of fileData] obtain recs
    where "read_loop fileData ds = Some (ds\<lparr>data := recs\<rparr>)"
      and "map_of recs = map_of (data ds) ++ map_of (rev fileData)" by blast
  then show ?thesis
    by (auto simp: readFile_def Some file_map_def)
qed

lemma run_workers_no_index:
  "indexes ds = [] \<Longrightarrow>
     \<exists>recs. run_workers disk sched ds = Some (ds\<lparr>data := recs\<rparr>)
       \<and> map_of recs = foldl (\<lambda>m p. m ++ file_map disk p) (map_of (data ds)) sched"
proof (induction sched arbitrary: ds)
  case Nil
  have "run_workers disk [] ds = Some (ds\<lparr>data := data ds\<rparr>)" by simp
  then show ?case by force
next
  case (Cons p sched)
  from readFile_no_index [OF Cons.prems, of disk p] obtain r1
    where rf: "readFile disk ds p = Ok (ds\<lparr>data := r1\<rparr>) \<or> readFile disk ds p = Err IOError (ds\<lparr>data := r1\<rparr>)"
      and m1: "map_of r1 = map_of (data ds) ++ file_map disk p" by blast
  from Cons.prems have "indexes (ds\<lparr>data := r1\<rparr>) = []" by simp
  from Cons.IH [OF this] obtain recs
    where rw: "run_workers disk sched (ds\<lparr>data := r1\<rparr>) = Some (ds\<lparr>data := r1, data := recs\<rparr>)"
      and m: "map_of recs = foldl (\<lambda>m p. m ++ file_map disk p) (map_of (data (ds\<lparr>data := r1\<rparr>))) sched"
    by auto
  from rf rw have "run_workers disk (p # sched) ds = Some (ds\<lparr>data := recs\<rparr>)"
    by auto
  moreover from m m1 have "map_of recs = foldl (\<lambda>m p. m ++ file_map disk p) (map_of (data ds)) (p # sched)"
    by simp
  ultimately show ?case by blast
qed

lemma fold_disjoint_files:
  assumes "\<forall>p \<in> set sched. \<forall>q \<in> set sched. p \<noteq> q \<longrightarrow> dom (file_map disk p) \<inter> dom (file_map disk q) = {}"
  shows "foldl (\<lambda>m p. m ++ file_map disk p) m0 sched rid = Some v \<longleftrightarrow>
           (\<exists>p \<in> set sched. file_map disk p rid = Some v)
           \<or> ((\<forall>p \<in> set sched. file_map disk p rid = None) \<and> m0 rid = Some v)"
  using assms
proof (induction sched arbitrary: m0)
  case Nil
  then show ?case by simp
next
  case (Cons a sched)
  from Cons.prems have dis: "\<forall>p \<in> set sched. \<forall>q \<in> set sched. p \<noteq> q \<longrightarrow> dom (file_map disk p) \<inter> dom (file_map disk q) = {}"
    by simp
  from Cons.prems have other: "\<And>q w. q \<in> set sched \<Longrightarrow> q \<noteq> a \<Longrightarrow> file_map disk a rid = Some w \<Longrightarrow> file_map disk q rid = None"
    by (metis domI disjoint_iff list.set_intros(1) list.set_intros(2) domIff)
  show ?case
    unfolding foldl_Cons Cons.IH [OF dis]
    using other
    by (auto simp: map_add_def split: option.splits)
qed


lemma dom_file_map: "dom (file_map disk p) = set (file_ids disk p)"
  by (cases "disk p") (auto simp: file_map_def file_ids_def dom_map_of_conv_image_fst)

lemma load_map_independent:
  assumes "set sched1 = set sched2" and "disjoint_ids disk sched1"
  shows "foldl (\<lambda>m p. m ++ file_map disk p) m0 sched1 = foldl (\<lambda>m p. m ++ file_map disk p) m0 sched2"
proof -
  from assms(2) have d1: "\<forall>p \<in> set sched1. \<forall>q \<in> set sched1. p \<noteq> q \<longrightarrow>
      dom (file_map disk p) \<inter> dom (file_map disk q) = {}"
    by (simp add: disjoint_ids_def dom_file_map)
  with assms(1) have d2: "\<forall>p \<in> set sched2. \<forall>q \<in> set sched2. p \<noteq> q \<longrightarrow>
      dom (file_map disk p) \<inter> dom (file_map disk q) = {}"
    by simp
  have "\<And>rid v. foldl (\<lambda>m p. m ++ file_map disk p) m0 sched1 rid = Some v \<longleftrightarrow>
      foldl (\<lambda>m p. m ++ file_map disk p) m0 sched2 rid = Some v"
    unfolding fold_disjoint_files [OF d1] fold_disjoint_files [OF d2] assms(1) ..
  then show ?thesis
    by (intro ext) (metis option.exhaust)
qed

text \<open>
  Claim C9, amended. When no id is defined by two of the shard files, loading into a
  store without indexes gives the same result for every order in which the workers
  merge: either both runs return the error of the directory scan with the same store,
  or both return ok with stores that differ at most in the order of the records, and
  hold the same record for every id.
\<close>

theorem C9_load_order_irrelevant_without_duplicates:
  assumes "indexes ds = []"
    and "set sched1 = set (yaml_files entries)" and "set sched2 = set (yaml_files entries)"
    and "disjoint_ids disk (yaml_files entries)"
  shows "(\<exists>s1 s2. ConcurrentRead entries werr disk sched1 ds = Ok s1
            \<and> ConcurrentRead entries werr disk sched2 ds = Ok s2
            \<and> map_of (data s1) = map_of (data s2)
            \<and> s1\<lparr>data := data s2\<rparr> = s2)
         \<or> (\<exists>e s. ConcurrentRead entries werr disk sched1 ds = Err e s
            \<and> ConcurrentRead entries werr disk sched2 ds = Err e s)"
proof (cases werr)
  case (Some e)
  then show ?thesis by (simp add: ConcurrentRead_def)
next
  case None
  let ?ds1 = "ds\<lparr>files := foldl (\<lambda>fs f. List.insert f fs) (files ds) (yaml_files entries), data := []\<rparr>"
  from assms(1) have ix: "indexes ?ds1 = []" by simp
  from run_workers_no_index [OF ix, of disk sched1] obtain r1
    where w1: "run_workers disk sched1 ?ds1 = Some (?ds1\<lparr>data := r1\<rparr>)"
      and m1: "map_of r1 = foldl (\<lambda>m p. m ++ file_map disk p) (map_of (data ?ds1)) sched1"
    by blast
  from run_workers_no_index [OF ix, of disk sched2] obtain r2
    where w2: "run_workers disk sched2 ?ds1 = Some (?ds1\<lparr>data := r2\<rparr>)"
      and m2: "map_of r2 = foldl (\<lambda>m p. m ++ file_map disk p) (map_of (data ?ds1)) sched2"
    by blast
  have "disjoint_ids disk sched1"
    using assms(2,4) by (simp add: disjoint_ids_def)
  from load_map_independent [OF _ this, of sched2] assms(2,3) m1 m2
  have eq: "map_of r1 = map_of r2" by simp
  from w1 w2 have "ConcurrentRead entries werr disk sched1 ds = Ok (?ds1\<lparr>data := r1\<rparr>)"
    and "ConcurrentRead entries werr disk sched2 ds = Ok (?ds1\<lparr>data := r2\<rparr>)"
    by (simp_all add: ConcurrentRead_def None Let_def)
  with eq show ?thesis by simp
qed

text \<open>
  The amended claim C9 at a directory whose two shard files define different ids: both
  orders load the same two records.
\<close>

theorem C9_load_order_irrelevant_without_duplicates_witness:
  "indexes (empty_store ''data'') = []
   \<and> set [''data/a.yaml'', ''data/b.yaml''] = set (yaml_files two_entries)
   \<and> set [''data/b.yaml'', ''data/a.yaml''] = set (yaml_files two_entries)
   \<and> disjoint_ids apart_disk (yaml_files two_entries)
   \<and> ConcurrentRead two_entries None apart_disk [''data/a.yaml'', ''data/b.yaml''] (empty_store ''data'')
       = Ok (loaded_store\<lparr>data := [(''x'', VInt 1), (''y'', VInt 2)]\<rparr>)
   \<and> ConcurrentRead two_entries None apart_disk [''data/b.yaml'', ''data/a.yaml''] (empty_store ''data'')
       = Ok (loaded_store\<lparr>data := [(''y'', VInt 2), (''x'', VInt 1)]\<rparr>)
   \<and> map_of [(''x'', VInt 1), (''y'', VInt 2)] = map_of [(''y'', VInt 2), (''x'', VInt 1)]"
proof -
  have h1: "indexes (empty_store ''data'') = []" by (simp add: empty_store_def)
  have yf: "yaml_files two_entries = [''data/a.yaml'', ''data/b.yaml'']" by code_simp
  have h2: "set [''data/a.yaml'', ''data/b.yaml''] = set (yaml_files two_entries)"
    and h3: "set [''data/b.yaml'', ''data/a.yaml''] = set (yaml_files two_entries)"
    by (auto simp: yf)
  have h4: "disjoint_ids apart_disk (yaml_files two_entries)"
    by (simp add: yf disjoint_ids_def file_ids_def apart_disk_def)
  have e1: "ConcurrentRead two_entries None apart_disk [''data/a.yaml'', ''data/b.yaml''] (empty_store ''data'')
       = Ok (loaded_store\<lparr>data := [(''x'', VInt 1), (''y'', VInt 2)]\<rparr>)"
    by code_simp
  have e2: "ConcurrentRead two_entries None apart_disk [''data/b.yaml'', ''data/a.yaml''] (empty_store ''data'')
       = Ok (loaded_store\<lparr>data := [(''y'', VInt 2), (''x'', VInt 1)]\<rparr>)"
    by code_simp
  from C9_load_order_irrelevant_without_duplicates [OF h1 h2 h3 h4, of None] e1 e2
  have e3: "map_of [(''x'', VInt 1), (''y'', VInt 2)] = map_of [(''y'', VInt 2), (''x'', VInt 1)]"
    by simp
  from h1 h2 h3 h4 e1 e2 e3 show ?thesis by blast
qed

section \<open>Queries with and without an index\<close>














































section \<open>Field paths in queries\<close>





end
